theory Spec2Isabelle
  imports Complex_Main
begin

text \<open>
  A model of \<^verbatim>\<open>tools/subscribe-data.js\<close>: the intensity functions of
  \<^verbatim>\<open>IntensityCalculator\<close>, the station cache \<^verbatim>\<open>getStationInfo\<close>, the reconciler
  \<^verbatim>\<open>processTargetAreaData\<close> and the poll loop \<^verbatim>\<open>fetchRealtimeData\<close>. The module's
  variables are the fields of one state record that every function takes and returns.
  What the program reads from outside (the clock, the outcome of each fetch, the
  subscribers) is an input of the function that reads it; an exception is the \<open>Inl\<close> of
  a sum.

  JavaScript runs one stretch of code at a time, but a call of an \<^verbatim>\<open>async\<close> function
  gives way at every \<^verbatim>\<open>await\<close>, and the timer can start another call of
  \<^verbatim>\<open>fetchRealtimeData\<close> while an earlier one waits for its fetch. The code between two
  \<^verbatim>\<open>await\<close>s runs without interruption. The poll loop is therefore given by its
  stretches (\<open>tick_begin\<close>, \<open>station_loop\<close>, \<open>tick_finish\<close>, \<open>heartbeat\<close>), each a
  function of the module state at the moment it runs, whatever other calls did to that
  state before. \<open>getStationInfo\<close>, \<open>processTargetAreaData\<close> and \<open>fetchRealtimeData\<close>
  compose the stretches of one call that no other call interrupts.
\<close>

section \<open>JavaScript values\<close>

text \<open>
  A JavaScript number is an IEEE double: a finite value, one of the two infinities, or
  NaN. Every finite double is a rational number, and the only operations the program
  applies to numbers (the comparisons \<open><\<close>, \<open>>\<close>, \<open>===\<close>, \<open>!==\<close>, the truthiness test and
  \<open>Math.round\<close>) are exact on doubles, so a finite double is modelled by its value as a
  real number. The two zeros \<open>+0\<close> and \<open>-0\<close> are one value here, as they are for every
  operation listed.
\<close>

datatype jsnum = Fin real | PosInf | NegInf | NaN

text \<open>The relational operators on numbers: every comparison with NaN is false.\<close>

fun js_lt :: "jsnum \<Rightarrow> jsnum \<Rightarrow> bool" where
  "js_lt NaN _ = False"
| "js_lt _ NaN = False"
| "js_lt (Fin x) (Fin y) = (x < y)"
| "js_lt (Fin _) PosInf = True"
| "js_lt (Fin _) NegInf = False"
| "js_lt PosInf _ = False"
| "js_lt NegInf NegInf = False"
| "js_lt NegInf _ = True"

fun js_le :: "jsnum \<Rightarrow> jsnum \<Rightarrow> bool" where
  "js_le NaN _ = False"
| "js_le _ NaN = False"
| "js_le (Fin x) (Fin y) = (x \<le> y)"
| "js_le (Fin _) PosInf = True"
| "js_le (Fin _) NegInf = False"
| "js_le PosInf PosInf = True"
| "js_le PosInf _ = False"
| "js_le NegInf _ = True"

text \<open>
  \<open>Math.round\<close>: the integral number closest to the argument, the one closer to
  \<open>+\<infinity>\<close> on a tie; NaN and the infinities are returned as they are.
\<close>

fun Math_round :: "jsnum \<Rightarrow> jsnum" where
  "Math_round (Fin x) = Fin (of_int \<lfloor>x + 1 / 2\<rfloor>)"
| "Math_round n = n"

section \<open>Intensity model (\<open>IntensityCalculator\<close>)\<close>

text \<open>
  \<open>INTENSITY_LIST\<close> of the source is
  \<^verbatim>\<open>['0', '1', '2', '3', '4', '5<U+207B>', '5<U+207A>', '6<U+207B>', '6<U+207A>', '7']\<close>:
  the signs of the four split levels are the characters SUPERSCRIPT MINUS (U+207B) and
  SUPERSCRIPT PLUS SIGN (U+207A), not the ASCII \<open>-\<close> and \<open>+\<close>. Strings are byte lists in
  UTF-8, so each of the two signs is three bytes.
\<close>

definition sup_minus :: string where
  "sup_minus = [CHR 0xE2, CHR 0x81, CHR 0xBB]"

definition sup_plus :: string where
  "sup_plus = [CHR 0xE2, CHR 0x81, CHR 0xBA]"

definition INTENSITY_LIST :: "string list" where
  "INTENSITY_LIST =
     [''0'', ''1'', ''2'', ''3'', ''4'',
      ''5'' @ sup_minus, ''5'' @ sup_plus, ''6'' @ sup_minus, ''6'' @ sup_plus, ''7'']"

text \<open>
  The string the source returns for a level outside the list: the two characters
  U+4E0D U+660E ("unknown" in Chinese), six bytes in UTF-8.
\<close>

definition unknown_text :: string where
  "unknown_text = [CHR 0xE4, CHR 0xB8, CHR 0x8D, CHR 0xE6, CHR 0x98, CHR 0x8E]"

text \<open>
  \<^verbatim>\<open>intensityFloatToInt(floatValue)\<close>: a chain of \<open><\<close> tests, each false on NaN, so
  NaN falls through to the last \<open>return 9\<close>.
\<close>

definition intensityFloatToInt :: "jsnum \<Rightarrow> jsnum" where
  "intensityFloatToInt floatValue =
     (if js_lt floatValue (Fin 0) then Fin 0
      else if js_lt floatValue (Fin 4.5) then Math_round floatValue
      else if js_lt floatValue (Fin 5) then Fin 5
      else if js_lt floatValue (Fin 5.5) then Fin 6
      else if js_lt floatValue (Fin 6) then Fin 7
      else if js_lt floatValue (Fin 6.5) then Fin 8
      else Fin 9)"

text \<open>
  \<^verbatim>\<open>intensityToText(level)\<close> on an integer level:
  \<^verbatim>\<open>level >= 0 && level < INTENSITY_LIST.length\<close> guards the index.
\<close>

definition intensityToText :: "int \<Rightarrow> string" where
  "intensityToText level =
     (if level \<ge> 0 \<and> level < int (length INTENSITY_LIST)
      then INTENSITY_LIST ! nat level
      else unknown_text)"

section \<open>Values read from parsed JSON\<close>

text \<open>
  The values a field of a parsed JSON object can hold, as far as the program looks at
  them: \<open>undefined\<close> (the field is missing), \<open>null\<close>, a boolean, a number or a string.
  Arrays and objects as field values are not modelled (\<open>!==\<close> compares them by identity).
  \<open>JSON.parse\<close> never yields NaN; NaN is a value of the type all the same, since
  \<^verbatim>\<open>intensityFloatToInt\<close> accepts it.
\<close>

datatype jsval = JUndefined | JNull | JBool bool | JNum jsnum | JStr string

text \<open>\<open>ToBoolean\<close>: what \<open>!v\<close>, \<open>v || w\<close> and \<open>if (v)\<close> test.\<close>

fun truthy :: "jsval \<Rightarrow> bool" where
  "truthy JUndefined = False"
| "truthy JNull = False"
| "truthy (JBool b) = b"
| "truthy (JNum (Fin x)) = (x \<noteq> 0)"
| "truthy (JNum NaN) = False"
| "truthy (JNum PosInf) = True"
| "truthy (JNum NegInf) = True"
| "truthy (JStr s) = (s \<noteq> [])"

definition js_or :: "jsval \<Rightarrow> jsval \<Rightarrow> jsval" where
  "js_or v w = (if truthy v then v else w)"

text \<open>Strict equality \<open>===\<close> and its negation \<open>!==\<close>: NaN is not equal to itself.\<close>

definition js_strict_eq :: "jsval \<Rightarrow> jsval \<Rightarrow> bool" where
  "js_strict_eq v w = (v = w \<and> v \<noteq> JNum NaN)"

definition js_strict_ne :: "jsval \<Rightarrow> jsval \<Rightarrow> bool" where
  "js_strict_ne v w = (\<not> js_strict_eq v w)"

text \<open>
  \<open>v > 0\<close>: the operand is converted with \<open>ToNumber\<close> first. The conversion of a string
  is ECMAScript's \<open>StringToNumber\<close>, which is no part of this program: it is the
  parameter \<open>str_num\<close>.
\<close>

fun js_gt_zero :: "(string \<Rightarrow> jsnum) \<Rightarrow> jsval \<Rightarrow> bool" where
  "js_gt_zero str_num JUndefined = False"
| "js_gt_zero str_num JNull = False"
| "js_gt_zero str_num (JBool b) = b"
| "js_gt_zero str_num (JNum n) = js_lt (Fin 0) n"
| "js_gt_zero str_num (JStr s) = js_lt (Fin 0) (str_num s)"

datatype error = TypeError | SyntaxError

text \<open>
  \<open>v.toFixed(2)\<close>: a method of numbers only; on any other value the call raises a
  TypeError. The digits of the resulting string are not modelled: the result stands for
  the string by the number it was formatted from.
\<close>

fun toFixed2 :: "jsval \<Rightarrow> error + jsnum" where
  "toFixed2 (JNum n) = Inr n"
| "toFixed2 _ = Inl TypeError"

section \<open>Configuration and program state\<close>

text \<open>One element of \<^verbatim>\<open>CONFIG.targetAreas\<close>: \<^verbatim>\<open>{ code, name }\<close>.\<close>

record target_area =
  area_code :: int
  area_name :: string

text \<open>
  \<^verbatim>\<open>CONFIG.targetAreas\<close> of the source; the four names are Chinese place names, given
  here by their UTF-8 bytes. The functions below take the list of monitored areas as
  the parameter \<open>cfg\<close>.
\<close>

definition CONFIG_targetAreas :: "target_area list" where
  "CONFIG_targetAreas =
     [\<lparr>area_code = 106, area_name = map char_of
         [0xE8, 0x87, 0xBA, 0xE5, 0x8C, 0x97, 0xE5, 0xB8, 0x82,
          0xE5, 0xA4, 0xA7, 0xE5, 0xAE, 0x89, 0xE5, 0x8D, 0x80 :: nat]\<rparr>,
      \<lparr>area_code = 402, area_name = map char_of
         [0xE8, 0x87, 0xBA, 0xE4, 0xB8, 0xAD, 0xE5, 0xB8, 0x82,
          0xE5, 0x8D, 0x97, 0xE5, 0x8D, 0x80 :: nat]\<rparr>,
      \<lparr>area_code = 710, area_name = map char_of
         [0xE8, 0x87, 0xBA, 0xE5, 0x8D, 0x97, 0xE5, 0xB8, 0x82,
          0xE6, 0xB0, 0xB8, 0xE5, 0xBA, 0xB7, 0xE5, 0x8D, 0x80 :: nat]\<rparr>,
      \<lparr>area_code = 301, area_name = map char_of
         [0xE6, 0x96, 0xB0, 0xE7, 0xAB, 0xB9, 0xE5, 0xB8, 0x82,
          0xE6, 0x9D, 0xB1, 0xE5, 0x8D, 0x80 :: nat]\<rparr>]"

definition CONFIG_interval :: int where
  "CONFIG_interval = 1000"

definition STATION_INFO_INTERVAL :: int where
  "STATION_INFO_INTERVAL = 5 * 60 * 1000"

text \<open>
  The station directory: \<^verbatim>\<open>stationInfo[stationId]\<close> is a station whose \<^verbatim>\<open>info\<close> is
  missing or a list, the last element being the current one. An element is \<open>null\<close>
  (\<open>None\<close>), on which reading \<^verbatim>\<open>code\<close> raises a TypeError, or an object
  \<^verbatim>\<open>{ code, lat, lon }\<close>, a missing field being \<open>JUndefined\<close>; a number, a boolean or a
  string in the place of the object has none of the fields. An \<^verbatim>\<open>info\<close> that is no
  array with elements (missing, \<open>null\<close>, a number, an empty array) is skipped by the
  guard \<^verbatim>\<open>!station.info || !station.info.length\<close>: it is \<open>None\<close> or the empty list. A
  station that is \<open>null\<close> is skipped by \<^verbatim>\<open>!station\<close> like one that is absent.
\<close>

record info_entry =
  code :: jsval
  lat :: jsval
  lon :: jsval

record station =
  info :: "info_entry option list option"

type_synonym station_info = "string \<rightharpoonup> station"

text \<open>
  One value of \<^verbatim>\<open>areaStatus\<close>; \<^verbatim>\<open>lastUpdate\<close> is \<open>null\<close> or a \<open>Date\<close> (its time in
  milliseconds). A \<open>Date\<close> object is truthy whatever its time.
\<close>

record area_status =
  name :: string
  pga :: jsval
  intensity :: jsval
  intensityText :: jsval
  lastUpdate :: "int option"

text \<open>
  \<^verbatim>\<open>areaStatus\<close> is an object keyed by area code: a map. Two configured areas with
  the same code share one key.
\<close>

type_synonym area_store = "int \<rightharpoonup> area_status"

text \<open>The module's variables.\<close>

record state =
  lastFetchTime :: int
  requestCounter :: nat
  isOffline :: bool
  areaStatus :: area_store
  stationInfo :: "station_info option"
  lastStationInfoFetch :: int

text \<open>The \<^verbatim>\<open>forEach\<close> that fills \<^verbatim>\<open>areaStatus\<close> when the module is loaded.\<close>

definition init_area :: "target_area \<Rightarrow> area_store \<Rightarrow> area_store" where
  "init_area area m =
     m(area_code area \<mapsto>
       \<lparr>name = area_name area, pga = JNum (Fin 0), intensity = JNum (Fin 0),
        intensityText = JStr ''0'', lastUpdate = None\<rparr>)"

definition init_areaStatus :: "target_area list \<Rightarrow> area_store" where
  "init_areaStatus cfg = fold init_area cfg Map.empty"

definition init_state :: "target_area list \<Rightarrow> state" where
  "init_state cfg =
     \<lparr>lastFetchTime = 0, requestCounter = 0, isOffline = False,
      areaStatus = init_areaStatus cfg, stationInfo = None, lastStationInfoFetch = 0\<rparr>"

section \<open>Upstream client and station cache\<close>

text \<open>
  What \<^verbatim>\<open>fetchData\<close> resolves to: \<open>None\<close> is the \<open>null\<close> it returns after catching a
  timeout or a network error; otherwise a response with its \<^verbatim>\<open>ok\<close> flag and the
  outcome of \<^verbatim>\<open>response.json()\<close> (\<open>None\<close> when the body does not parse and the call
  rejects with a SyntaxError). The network is not modelled: the outcome of the fetch is
  an input. Console output is not modelled either.
\<close>

datatype 'a response = Response (ok: bool) (json: "'a option")

text \<open>\<^verbatim>\<open>fetchData\<close> records in \<^verbatim>\<open>isOffline\<close> whether the request raised.\<close>

definition fetchData :: "'a response option \<Rightarrow> state \<Rightarrow> state" where
  "fetchData outcome st = st\<lparr>isOffline := (outcome = None)\<rparr>"

text \<open>
  \<^verbatim>\<open>getStationInfo()\<close>, with the reading of \<^verbatim>\<open>Date.now()\<close> and the outcome the fetch
  would have as inputs; the fetch is issued only when the cache is missing or older
  than the interval. The body of an OK response is taken to be a station directory (an
  object, hence truthy). The result is \<open>Inl\<close> when the call rejects, \<open>Inr None\<close> when it
  returns \<open>null\<close>.
\<close>

definition getStationInfo ::
  "int \<Rightarrow> station_info response option \<Rightarrow> state \<Rightarrow> state \<times> (error + station_info option)" where
  "getStationInfo now outcome st =
     (if stationInfo st \<noteq> None \<and> now - lastStationInfoFetch st < STATION_INFO_INTERVAL
      then (st, Inr (stationInfo st))
      else
        let st1 = fetchData outcome st in
        (case outcome of
           Some (Response True body) \<Rightarrow>
             (case body of
                None \<Rightarrow> (st1, Inl SyntaxError)
              | Some fetched \<Rightarrow>
                  (st1\<lparr>stationInfo := Some fetched, lastStationInfoFetch := now\<rparr>,
                   Inr (Some fetched)))
         | _ \<Rightarrow> (st1, Inr None)))"

section \<open>Reconciler (\<open>processTargetAreaData\<close>)\<close>

text \<open>
  The value of one entry of \<^verbatim>\<open>data.station\<close>: \<open>null\<close>, on which reading a field raises
  a TypeError, or an object with the fields \<^verbatim>\<open>pga\<close>, \<^verbatim>\<open>i\<close> and \<^verbatim>\<open>I\<close>, in this order, a
  missing field being \<open>JUndefined\<close>. A number, a boolean or a string in the place of the
  object has none of the three fields: it is \<open>SObj JUndefined JUndefined JUndefined\<close>.
\<close>

datatype station_data = SNull | SObj jsval jsval jsval

text \<open>
  The parsed realtime payload: \<^verbatim>\<open>data.time\<close> and \<^verbatim>\<open>data.station\<close>. The latter is \<open>None\<close>
  when it is falsy and otherwise the list \<^verbatim>\<open>Object.entries(data.station)\<close> iterates.
\<close>

record rts_data =
  rts_time :: jsval
  rts_station :: "(string \<times> station_data) list option"

text \<open>
  One element of \<^verbatim>\<open>result.updatedAreas\<close>; \<open>u_intensityFloat\<close> is the number whose
  \<^verbatim>\<open>toFixed(2)\<close> the source stores, \<open>u_lat\<close> and \<open>u_lon\<close> are its \<^verbatim>\<open>location\<close>.
\<close>

record updated_area =
  u_code :: int
  u_name :: string
  u_pga :: jsval
  u_intensityFloat :: jsnum
  u_intensity :: jsval
  u_intensityText :: jsval
  u_stationId :: string
  u_lat :: jsval
  u_lon :: jsval

record proc_result =
  res_time :: jsval
  updatedAreas :: "updated_area list"

text \<open>\<^verbatim>\<open>CONFIG.targetAreas.find(area => area.code === areaCode)\<close>.\<close>

definition find_target :: "target_area list \<Rightarrow> jsval \<Rightarrow> target_area option" where
  "find_target cfg areaCode =
     find (\<lambda>area. js_strict_eq (JNum (Fin (of_int (area_code area)))) areaCode) cfg"

text \<open>
  The first half of the loop body: the station of the entry, its current (last)
  \<^verbatim>\<open>info\<close> and the monitored area with that code. \<open>Inr None\<close> is each of the three
  \<^verbatim>\<open>continue\<close>s: the station is not in the directory or has no or an empty \<^verbatim>\<open>info\<close>,
  or no configured area has the code. \<open>Inl\<close> is the TypeError of \<^verbatim>\<open>latestInfo.code\<close>
  when the last element of \<^verbatim>\<open>info\<close> is \<open>null\<close>.
\<close>

definition current_area ::
  "target_area list \<Rightarrow> station_info \<Rightarrow> string \<Rightarrow>
   error + (target_area \<times> info_entry) option" where
  "current_area cfg si stationId =
     (case si stationId of
        None \<Rightarrow> Inr None
      | Some st \<Rightarrow>
        (case info st of
           None \<Rightarrow> Inr None
         | Some history \<Rightarrow>
           if history = [] then Inr None
           else
             (case last history of
                None \<Rightarrow> Inl TypeError
              | Some latestInfo \<Rightarrow>
                let areaCode = code latestInfo in
                (case find_target cfg areaCode of
                   None \<Rightarrow> Inr None
                 | Some targetArea \<Rightarrow> Inr (Some (targetArea, latestInfo))))))"

text \<open>
  The body of the \<^verbatim>\<open>for\<close> loop for one entry, at the time \<open>now\<close> that \<^verbatim>\<open>new Date()\<close>
  reads. It returns the store as the entry leaves it and either the error raised or the
  list of updated areas. The store is assigned before the element of \<^verbatim>\<open>updatedAreas\<close>
  is built, so a TypeError of \<^verbatim>\<open>intensityFloat.toFixed(2)\<close> leaves the new status in the
  store.
\<close>

definition station_step ::
  "target_area list \<Rightarrow> station_info \<Rightarrow> int \<Rightarrow> string \<times> station_data \<Rightarrow>
   area_store \<Rightarrow> updated_area list \<Rightarrow> area_store \<times> (error + updated_area list)" where
  "station_step cfg si now entry store upd =
     (case entry of (stationId, stationData) \<Rightarrow>
      (case current_area cfg si stationId of
         Inl e \<Rightarrow> (store, Inl e)
       | Inr None \<Rightarrow> (store, Inr upd)
       | Inr (Some (targetArea, latestInfo)) \<Rightarrow>
         (case stationData of
            SNull \<Rightarrow> (store, Inl TypeError)
          | SObj p i I \<Rightarrow>
            let pga1 = js_or p (JNum (Fin 0)) in
            (case store (area_code targetArea) of
               None \<Rightarrow> (store, Inl TypeError)
             | Some cur \<Rightarrow>
               let changed =
                     (js_strict_ne (pga cur) pga1 \<or> js_strict_ne (intensity cur) I)
               in
               if changed \<or> lastUpdate cur = None then
                 let store1 = store(area_code targetArea \<mapsto>
                       \<lparr>name = area_name targetArea, pga = pga1, intensity = I,
                        intensityText = i, lastUpdate = Some now\<rparr>)
                 in
                 (case toFixed2 i of
                    Inl e \<Rightarrow> (store1, Inl e)
                  | Inr f \<Rightarrow>
                      (store1,
                       Inr (upd @
                         [\<lparr>u_code = area_code targetArea, u_name = area_name targetArea,
                           u_pga = pga1, u_intensityFloat = f, u_intensity = I,
                           u_intensityText = i, u_stationId = stationId,
                           u_lat = lat latestInfo, u_lon = lon latestInfo\<rparr>])))
               else (store, Inr upd)))))"

text \<open>
  The \<^verbatim>\<open>for\<close> loop over the entries; \<open>clock k\<close> is the time \<^verbatim>\<open>new Date()\<close> reads while
  the \<open>k\<close>-th entry is processed. The first error ends the loop.
\<close>

fun station_loop ::
  "target_area list \<Rightarrow> station_info \<Rightarrow> (nat \<Rightarrow> int) \<Rightarrow> nat \<Rightarrow> (string \<times> station_data) list \<Rightarrow>
   area_store \<Rightarrow> updated_area list \<Rightarrow> area_store \<times> (error + updated_area list)" where
  "station_loop cfg si clock k [] store upd = (store, Inr upd)"
| "station_loop cfg si clock k (entry # entries) store upd =
     (case station_step cfg si (clock k) entry store upd of
        (store1, Inl e) \<Rightarrow> (store1, Inl e)
      | (store1, Inr upd1) \<Rightarrow> station_loop cfg si clock (Suc k) entries store1 upd1)"

text \<open>
  The reconciliation proper: the loop of \<^verbatim>\<open>processTargetAreaData\<close> over a payload, for a
  station directory that \<^verbatim>\<open>getStationInfo\<close> returned. It starts from an empty
  \<^verbatim>\<open>updatedAreas\<close>.
\<close>

definition reconcile ::
  "target_area list \<Rightarrow> station_info \<Rightarrow> (nat \<Rightarrow> int) \<Rightarrow> (string \<times> station_data) list \<Rightarrow>
   area_store \<Rightarrow> area_store \<times> (error + updated_area list)" where
  "reconcile cfg si clock entries store = station_loop cfg si clock 0 entries store []"

text \<open>What one call of \<^verbatim>\<open>processTargetAreaData\<close> reads from outside the module.\<close>

record reconcile_input =
  t_station :: int
  station_response :: "station_info response option"
  t_result :: int
  clock :: "nat \<Rightarrow> int"

text \<open>
  \<^verbatim>\<open>processTargetAreaData(data)\<close>; \<open>data\<close> is \<open>None\<close> when the parsed payload is falsy.
  \<open>Inr None\<close> is the \<open>null\<close> the function returns without a result, \<open>Inl\<close> a rejection.
\<close>

definition processTargetAreaData ::
  "target_area list \<Rightarrow> ('a reconcile_input_scheme) \<Rightarrow> rts_data option \<Rightarrow> state \<Rightarrow>
   state \<times> (error + proc_result option)" where
  "processTargetAreaData cfg inp data st =
     (case data of
        None \<Rightarrow> (st, Inr None)
      | Some d \<Rightarrow>
        (case rts_station d of
           None \<Rightarrow> (st, Inr None)
         | Some entries \<Rightarrow>
           (case getStationInfo (t_station inp) (station_response inp) st of
              (st1, Inl e) \<Rightarrow> (st1, Inl e)
            | (st1, Inr None) \<Rightarrow> (st1, Inr None)
            | (st1, Inr (Some si)) \<Rightarrow>
              (case reconcile cfg si (clock inp) entries (areaStatus st1) of
                 (store1, Inl e) \<Rightarrow> (st1\<lparr>areaStatus := store1\<rparr>, Inl e)
               | (store1, Inr upd) \<Rightarrow>
                   (st1\<lparr>areaStatus := store1\<rparr>,
                    Inr (Some \<lparr>res_time = js_or (rts_time d) (JNum (Fin (of_int (t_result inp)))),
                               updatedAreas = upd\<rparr>))))))"

section \<open>Poll loop (\<open>fetchRealtimeData\<close>)\<close>

text \<open>
  What the poll loop does to the outside: a completed \<^verbatim>\<open>displayAreaStatus()\<close> with the
  store it printed, and a \<^verbatim>\<open>client.send\<close> of the status message to one subscriber with
  the store it carried.
\<close>

datatype event = Display area_store | Send nat area_store

text \<open>
  \<^verbatim>\<open>displayAreaStatus()\<close> prints one line per configured area with
  \<^verbatim>\<open>status.pga.toFixed(2)\<close>: it raises a TypeError when an area has no status or its
  \<^verbatim>\<open>pga\<close> is not a number.
\<close>

definition displayable :: "area_store \<Rightarrow> target_area \<Rightarrow> bool" where
  "displayable store area =
     (case store (area_code area) of
        None \<Rightarrow> False
      | Some status \<Rightarrow> (case toFixed2 (pga status) of Inl e \<Rightarrow> False | Inr f \<Rightarrow> True))"

definition displayAreaStatus :: "target_area list \<Rightarrow> area_store \<Rightarrow> error + event list" where
  "displayAreaStatus cfg store =
     (if list_all (displayable store) cfg then Inr [Display store] else Inl TypeError)"

text \<open>
  The \<^verbatim>\<open>wss.clients.forEach\<close>: one message to every subscriber whose \<^verbatim>\<open>readyState\<close> is
  \<^verbatim>\<open>OPEN\<close>. The subscribers are pairs of an identifier and that flag; \<open>None\<close> is a
  \<^verbatim>\<open>wss\<close> not yet set up.
\<close>

definition broadcast :: "(nat \<times> bool) list option \<Rightarrow> area_store \<Rightarrow> event list" where
  "broadcast clients store =
     (case clients of
        None \<Rightarrow> []
      | Some cs \<Rightarrow> map (\<lambda>c. Send (fst c) store) (filter snd cs))"

text \<open>
  The loop that logs the changed areas: for an area with \<^verbatim>\<open>area.intensity > 0\<close> it
  formats \<^verbatim>\<open>area.pga.toFixed(2)\<close>, which raises a TypeError unless the \<^verbatim>\<open>pga\<close> is a number.
\<close>

definition loggable :: "(string \<Rightarrow> jsnum) \<Rightarrow> updated_area \<Rightarrow> bool" where
  "loggable str_num area =
     (if js_gt_zero str_num (u_intensity area)
      then (case toFixed2 (u_pga area) of Inl e \<Rightarrow> False | Inr f \<Rightarrow> True)
      else True)"

definition log_updates :: "(string \<Rightarrow> jsnum) \<Rightarrow> proc_result option \<Rightarrow> error + unit" where
  "log_updates str_num targetAreaData =
     (case targetAreaData of
        None \<Rightarrow> Inr ()
      | Some r \<Rightarrow> if list_all (loggable str_num) (updatedAreas r) then Inr () else Inl TypeError)"

text \<open>What one tick of the poll loop reads from outside the module.\<close>

record tick_input = reconcile_input +
  t_now :: int
  rts_response :: "rts_data option response option"
  ws_clients :: "(nat \<times> bool) list option"

text \<open>
  The first stretch of \<^verbatim>\<open>fetchRealtimeData\<close>, up to the \<^verbatim>\<open>await\<close> of the fetch: the
  rate limit and the two assignments. \<open>None\<close> is the early \<^verbatim>\<open>return\<close>.
\<close>

definition tick_begin :: "tick_input \<Rightarrow> state \<Rightarrow> state option" where
  "tick_begin inp st =
     (if t_now inp - lastFetchTime st < CONFIG_interval then None
      else Some (st\<lparr>lastFetchTime := t_now inp, requestCounter := requestCounter st + 1\<rparr>))"

text \<open>
  The heartbeat at the end of the \<^verbatim>\<open>try\<close> block:
  \<^verbatim>\<open>if (requestCounter % 60 === 0) displayAreaStatus()\<close>. It reads the module variable
  \<^verbatim>\<open>requestCounter\<close> as it is when the test runs: in \<open>heartbeat cfg st evs\<close> the state
  \<open>st\<close> is the module state at that moment. The result of a tick is the state, the
  events in their order, and the error the \<^verbatim>\<open>catch\<close> clause caught, if any.
\<close>

definition heartbeat ::
  "target_area list \<Rightarrow> state \<Rightarrow> event list \<Rightarrow> state \<times> event list \<times> error option" where
  "heartbeat cfg st evs =
     (if requestCounter st mod 60 = 0 then
        (case displayAreaStatus cfg (areaStatus st) of
           Inl e \<Rightarrow> (st, evs, Some e)
         | Inr shown \<Rightarrow> (st, evs @ shown, None))
      else (st, evs, None))"

text \<open>
  The last stretch of a tick whose fetch was OK, from the return of
  \<^verbatim>\<open>processTargetAreaData\<close> to the end of the \<^verbatim>\<open>try\<close> block: the display, the
  broadcast, the log of the changed areas and the heartbeat. It has no \<^verbatim>\<open>await\<close>;
  \<open>st\<close> is the module state when it starts. An error raised in it skips the rest, the
  heartbeat included, and is caught.
\<close>

definition tick_finish ::
  "target_area list \<Rightarrow> (string \<Rightarrow> jsnum) \<Rightarrow> tick_input \<Rightarrow> proc_result option \<Rightarrow> state \<Rightarrow>
   state \<times> event list \<times> error option" where
  "tick_finish cfg str_num inp targetAreaData st =
     (case displayAreaStatus cfg (areaStatus st) of
        Inl e \<Rightarrow> (st, [], Some e)
      | Inr shown \<Rightarrow>
        let evs = shown @ broadcast (ws_clients inp) (areaStatus st) in
        (case log_updates str_num targetAreaData of
           Inl e \<Rightarrow> (st, evs, Some e)
         | Inr u \<Rightarrow> heartbeat cfg st evs))"

text \<open>
  The \<^verbatim>\<open>try\<close> block of \<^verbatim>\<open>fetchRealtimeData\<close> from the point where \<^verbatim>\<open>fetchData\<close> has
  resolved, for a call that nothing interrupts from there on; \<open>st\<close> is the module
  state at that point. When the response is not OK, the heartbeat is all that is left,
  with no \<^verbatim>\<open>await\<close> before it.
\<close>

definition handle_response ::
  "target_area list \<Rightarrow> (string \<Rightarrow> jsnum) \<Rightarrow> tick_input \<Rightarrow> state \<Rightarrow>
   state \<times> event list \<times> error option" where
  "handle_response cfg str_num inp st =
     (case rts_response inp of
        Some (Response True body) \<Rightarrow>
          (case body of
             None \<Rightarrow> (st, [], Some SyntaxError)
           | Some rtsData \<Rightarrow>
             (case processTargetAreaData cfg inp rtsData st of
                (st1, Inl e) \<Rightarrow> (st1, [], Some e)
              | (st1, Inr targetAreaData) \<Rightarrow> tick_finish cfg str_num inp targetAreaData st1))
      | _ \<Rightarrow> heartbeat cfg st [])"

text \<open>
  What a call of \<^verbatim>\<open>fetchRealtimeData\<close> does when it resumes after the \<^verbatim>\<open>await\<close> of its
  fetch in the module state \<open>st\<close>, which other calls may have changed since the call
  began: \<^verbatim>\<open>fetchData\<close> sets \<^verbatim>\<open>isOffline\<close>, and the rest of the \<^verbatim>\<open>try\<close> block follows.
\<close>

definition tick_resume ::
  "target_area list \<Rightarrow> (string \<Rightarrow> jsnum) \<Rightarrow> tick_input \<Rightarrow> state \<Rightarrow>
   state \<times> event list \<times> error option" where
  "tick_resume cfg str_num inp st =
     handle_response cfg str_num inp (fetchData (rts_response inp) st)"

text \<open>
  \<^verbatim>\<open>fetchRealtimeData()\<close>, for a call that no other call interrupts: it resumes in the
  state in which it began to wait.
\<close>

definition fetchRealtimeData ::
  "target_area list \<Rightarrow> (string \<Rightarrow> jsnum) \<Rightarrow> tick_input \<Rightarrow> state \<Rightarrow>
   state \<times> event list \<times> error option" where
  "fetchRealtimeData cfg str_num inp st =
     (case tick_begin inp st of
        None \<Rightarrow> (st, [], None)
      | Some st1 \<Rightarrow> tick_resume cfg str_num inp st1)"

text \<open>
  The timer when no tick overlaps another: one call of \<^verbatim>\<open>fetchRealtimeData\<close> per tick,
  each on the state the last left.
\<close>

fun poll_loop ::
  "target_area list \<Rightarrow> (string \<Rightarrow> jsnum) \<Rightarrow> tick_input list \<Rightarrow> state \<Rightarrow> state" where
  "poll_loop cfg str_num [] st = st"
| "poll_loop cfg str_num (inp # inps) st =
     poll_loop cfg str_num inps (fst (fetchRealtimeData cfg str_num inp st))"

section \<open>Readings per area\<close>

text \<open>
  What an entry that the loop does not skip asks the store to hold: the code of its
  area, its \<^verbatim>\<open>pga\<close> (after \<^verbatim>\<open>|| 0\<close>) and its \<^verbatim>\<open>I\<close>. \<open>None\<close> for an entry the loop skips,
  for an entry whose station raises and for a \<open>null\<close> entry.
\<close>

definition area_reading ::
  "target_area list \<Rightarrow> station_info \<Rightarrow> string \<times> station_data \<Rightarrow> (int \<times> jsval \<times> jsval) option" where
  "area_reading cfg si entry =
     (case current_area cfg si (fst entry) of
        Inl e \<Rightarrow> None
      | Inr None \<Rightarrow> None
      | Inr (Some (targetArea, latestInfo)) \<Rightarrow>
        (case snd entry of
           SNull \<Rightarrow> None
         | SObj p i I \<Rightarrow> Some (area_code targetArea, js_or p (JNum (Fin 0)), I)))"

text \<open>
  The entries of a payload agree when any two of them that belong to the same
  monitored area carry the same \<^verbatim>\<open>pga\<close> and the same \<^verbatim>\<open>I\<close>; in particular when no two
  of them belong to the same area.
\<close>

definition agreeing :: "target_area list \<Rightarrow> station_info \<Rightarrow> (string \<times> station_data) list \<Rightarrow> bool" where
  "agreeing cfg si entries =
     (\<forall>e \<in> set entries. \<forall>e' \<in> set entries. \<forall>k v v'.
        area_reading cfg si e = Some (k, v) \<and> area_reading cfg si e' = Some (k, v') \<longrightarrow> v = v')"

text \<open>No \<^verbatim>\<open>I\<close> of the payload is NaN, as in every payload that \<open>JSON.parse\<close> returns.\<close>

definition no_NaN :: "(string \<times> station_data) list \<Rightarrow> bool" where
  "no_NaN entries =
     list_all (\<lambda>entry. case snd entry of SNull \<Rightarrow> True | SObj p i I \<Rightarrow> I \<noteq> JNum NaN) entries"

text \<open>The store holds a reading: the area has a status with these values that was updated.\<close>

definition holds :: "area_store \<Rightarrow> int \<times> jsval \<times> jsval \<Rightarrow> bool" where
  "holds store r =
     (case r of (k, p, I) \<Rightarrow>
        (case store k of
           None \<Rightarrow> False
         | Some cur \<Rightarrow> pga cur = p \<and> intensity cur = I \<and> lastUpdate cur \<noteq> None))"

text \<open>
  A status of area \<open>k\<close> was written from an entry of the set \<open>E\<close>: some entry of \<open>E\<close>
  belongs to area \<open>k\<close>, the status has the \<^verbatim>\<open>pga\<close> (after \<^verbatim>\<open>|| 0\<close>) and the \<^verbatim>\<open>I\<close> of
  that entry, and the \<^verbatim>\<open>intensityText\<close> of the status is the \<^verbatim>\<open>i\<close> of that entry.
\<close>

definition written_from ::
  "target_area list \<Rightarrow> station_info \<Rightarrow> (string \<times> station_data) set \<Rightarrow> int \<Rightarrow> area_status \<Rightarrow> bool" where
  "written_from cfg si E k status =
     (\<exists>sid p. (sid, SObj p (intensityText status) (intensity status)) \<in> E \<and>
        area_reading cfg si (sid, SObj p (intensityText status) (intensity status)) =
          Some (k, pga status, intensity status))"



section \<open>A sample directory and payloads\<close>

text \<open>
  A station directory with three stations of monitored areas, two of them in area 106,
  one station of an area that is not monitored, one with an empty history and one
  whose last \<^verbatim>\<open>info\<close> is \<open>null\<close>.
\<close>

definition sample_entry :: "int \<Rightarrow> info_entry" where
  "sample_entry c = \<lparr>code = JNum (Fin (of_int c)), lat = JNum (Fin 25), lon = JNum (Fin 121.5)\<rparr>"

definition sample_stations :: station_info where
  "sample_stations =
     [''S1'' \<mapsto> \<lparr>info = Some [Some (sample_entry 106)]\<rparr>,
      ''S2'' \<mapsto> \<lparr>info = Some [Some (sample_entry 301), Some (sample_entry 402)]\<rparr>,
      ''S3'' \<mapsto> \<lparr>info = Some [Some (sample_entry 106)]\<rparr>,
      ''S4'' \<mapsto> \<lparr>info = Some [Some (sample_entry 999)]\<rparr>,
      ''S5'' \<mapsto> \<lparr>info = Some []\<rparr>,
      ''S6'' \<mapsto> \<lparr>info = Some [Some (sample_entry 106), None]\<rparr>]"

definition sample_clock :: "nat \<Rightarrow> int" where
  "sample_clock k = 5000 + int k"

definition later_clock :: "nat \<Rightarrow> int" where
  "later_clock k = 6000 + int k"

text \<open>A reading with all three fields.\<close>

definition reading :: "real \<Rightarrow> real \<Rightarrow> real \<Rightarrow> station_data" where
  "reading p i I = SObj (JNum (Fin p)) (JNum (Fin i)) (JNum (Fin I))"

text \<open>One station in each of two monitored areas, and one in an area not monitored.\<close>

definition payload_two_areas :: "(string \<times> station_data) list" where
  "payload_two_areas =
     [(''S1'', reading 5 1.2 1), (''S4'', reading 9 2.6 3), (''S2'', reading 3 0.8 1)]"

text \<open>Two stations of area 106 with different readings.\<close>

definition payload_same_area :: "(string \<times> station_data) list" where
  "payload_same_area = [(''S1'', reading 5 1.2 1), (''S3'', reading 6 1.5 1)]"

text \<open>The first entry has no \<^verbatim>\<open>i\<close>.\<close>

definition payload_missing_i :: "(string \<times> station_data) list" where
  "payload_missing_i =
     [(''S1'', SObj (JNum (Fin 5)) JUndefined (JNum (Fin 1))), (''S2'', reading 3 0.8 1)]"



text \<open>
  The status and the element of \<^verbatim>\<open>updatedAreas\<close> that a reading of the \<open>k\<close>-th
  configured area gives, for a station of the sample directory.
\<close>

definition sample_status :: "nat \<Rightarrow> jsval \<Rightarrow> jsval \<Rightarrow> jsval \<Rightarrow> int \<Rightarrow> area_status" where
  "sample_status k p i I t =
     \<lparr>name = area_name (CONFIG_targetAreas ! k), pga = p, intensity = I,
      intensityText = i, lastUpdate = Some t\<rparr>"

definition sample_update :: "nat \<Rightarrow> string \<Rightarrow> jsval \<Rightarrow> jsnum \<Rightarrow> jsval \<Rightarrow> updated_area" where
  "sample_update k sid p f I =
     \<lparr>u_code = area_code (CONFIG_targetAreas ! k), u_name = area_name (CONFIG_targetAreas ! k),
      u_pga = p, u_intensityFloat = f, u_intensity = I, u_intensityText = JNum f,
      u_stationId = sid, u_lat = JNum (Fin 25), u_lon = JNum (Fin 121.5)\<rparr>"

text \<open>A state whose station directory was fetched at time 0, before the 60th tick.\<close>

definition sample_state :: state where
  "sample_state =
     \<lparr>lastFetchTime = 0, requestCounter = 59, isOffline = False,
      areaStatus = init_areaStatus CONFIG_targetAreas,
      stationInfo = Some sample_stations, lastStationInfoFetch = 0\<rparr>"

text \<open>
  Ticks at time 2000 with one subscriber that is open and one that is not: one whose
  realtime fetch fails, and one whose fetch returns a given list of entries.
\<close>

definition tick_fetch_failed :: tick_input where
  "tick_fetch_failed =
     \<lparr>t_station = 2000, station_response = None, t_result = 2000, clock = sample_clock,
      t_now = 2000, rts_response = None, ws_clients = Some [(1, True), (2, False)]\<rparr>"

definition tick_with :: "(string \<times> station_data) list \<Rightarrow> tick_input" where
  "tick_with entries =
     \<lparr>t_station = 2000, station_response = None, t_result = 2000, clock = sample_clock,
      t_now = 2000,
      rts_response =
        Some (Response True (Some (Some \<lparr>rts_time = JUndefined, rts_station = Some entries\<rparr>))),
      ws_clients = Some [(1, True), (2, False)]\<rparr>"


text \<open>A stand-in for \<open>StringToNumber\<close> where no string is converted.\<close>

definition no_strings :: "string \<Rightarrow> jsnum" where
  "no_strings s = NaN"

section \<open>The intensity model: properties\<close>

lemma Math_round_nearest: "Math_round (Fin x) = Fin (of_int (round x))"
  by (simp add: round_def)

lemma Math_round_mono: "x \<le> y \<Longrightarrow> \<lfloor>x + 1 / 2\<rfloor> \<le> \<lfloor>y + 1 / (2::real)\<rfloor>"
  by (simp add: floor_mono)

lemma Math_round_bounds:
  "0 \<le> x \<Longrightarrow> x < 4.5 \<Longrightarrow> 0 \<le> \<lfloor>x + 1 / (2::real)\<rfloor> \<and> \<lfloor>x + 1 / (2::real)\<rfloor> \<le> 4"
  by (simp add: le_floor_iff floor_le_iff)

text \<open>
  C3: \<^verbatim>\<open>intensityFloatToInt\<close> reproduces the threshold table. Below 0 the result is 0;
  from 0 up to (not including) 4.5 it is the input rounded to the nearest integer (at
  most 1/2 away from the input, and between 0 and 4); from 4.5 it is 5, from 5 it is 6,
  from 5.5 it is 7, from 6 it is 8, and from 6.5 on it is 9. The values that are no
  finite number follow the same chain of tests: negative infinity gives 0, positive
  infinity and NaN give 9. The twelve values of the table are as the specification
  lists them.
\<close>

theorem intensityFloatToInt_table:
  "(x < 0 \<longrightarrow> intensityFloatToInt (Fin x) = Fin 0) \<and>
   (0 \<le> x \<and> x < 4.5 \<longrightarrow>
      intensityFloatToInt (Fin x) = Fin (of_int (round x)) \<and>
      \<bar>of_int (round x) - x\<bar> \<le> 1 / 2 \<and> 0 \<le> round x \<and> round x \<le> 4) \<and>
   (4.5 \<le> x \<and> x < 5 \<longrightarrow> intensityFloatToInt (Fin x) = Fin 5) \<and>
   (5 \<le> x \<and> x < 5.5 \<longrightarrow> intensityFloatToInt (Fin x) = Fin 6) \<and>
   (5.5 \<le> x \<and> x < 6 \<longrightarrow> intensityFloatToInt (Fin x) = Fin 7) \<and>
   (6 \<le> x \<and> x < 6.5 \<longrightarrow> intensityFloatToInt (Fin x) = Fin 8) \<and>
   (6.5 \<le> x \<longrightarrow> intensityFloatToInt (Fin x) = Fin 9) \<and>
   intensityFloatToInt NegInf = Fin 0 \<and>
   intensityFloatToInt PosInf = Fin 9 \<and>
   intensityFloatToInt NaN = Fin 9 \<and>
   intensityFloatToInt (Fin (-1)) = Fin 0 \<and>
   intensityFloatToInt (Fin 3.2) = Fin 3 \<and>
   intensityFloatToInt (Fin 4.49) = Fin 4 \<and>
   intensityFloatToInt (Fin 4.5) = Fin 5 \<and>
   intensityFloatToInt (Fin 4.99) = Fin 5 \<and>
   intensityFloatToInt (Fin 5.0) = Fin 6 \<and>
   intensityFloatToInt (Fin 5.49) = Fin 6 \<and>
   intensityFloatToInt (Fin 5.5) = Fin 7 \<and>
   intensityFloatToInt (Fin 5.99) = Fin 7 \<and>
   intensityFloatToInt (Fin 6.0) = Fin 8 \<and>
   intensityFloatToInt (Fin 6.49) = Fin 8 \<and>
   intensityFloatToInt (Fin 6.5) = Fin 9"
proof -
  have r: "0 \<le> x \<Longrightarrow> x < 4.5 \<Longrightarrow> 0 \<le> round x \<and> round x \<le> 4"
    unfolding round_def by (simp add: le_floor_iff floor_le_iff)
  have d: "\<bar>of_int (round x) - x\<bar> \<le> 1 / 2"
    by (rule of_int_round_abs_le)
  have f32: "round (3.2::real) = 3" by (simp add: round_def floor_unique)
  have f449: "round (4.49::real) = 4" by (simp add: round_def floor_unique)
  show ?thesis
    using r d f32 f449
    by (simp add: intensityFloatToInt_def Math_round_nearest del: Math_round.simps)
qed

theorem intensityFloatToInt_table_witness:
  "intensityFloatToInt (Fin (-0.3)) = Fin 0 \<and>
   intensityFloatToInt (Fin 2.5) = Fin 3 \<and>
   intensityFloatToInt (Fin 4.7) = Fin 5 \<and>
   intensityFloatToInt (Fin 5.2) = Fin 6 \<and>
   intensityFloatToInt (Fin 5.7) = Fin 7 \<and>
   intensityFloatToInt (Fin 6.2) = Fin 8 \<and>
   intensityFloatToInt (Fin 7) = Fin 9"
proof -
  have "round (2.5::real) = 3" by (simp add: round_def floor_unique)
  then show ?thesis
    using intensityFloatToInt_table [of "-0.3"] intensityFloatToInt_table [of "2.5"]
      intensityFloatToInt_table [of "4.7"] intensityFloatToInt_table [of "5.2"]
      intensityFloatToInt_table [of "5.7"] intensityFloatToInt_table [of "6.2"]
      intensityFloatToInt_table [of 7]
    by simp
qed

text \<open>
  The decimals 3.2, 4.49, 4.99, 5.49, 5.99 and 6.49 of the table are no doubles:
  JavaScript reads each as the nearest double, less than \<open>10\<^sup>-\<^sup>1\<^sup>5\<close> away. The results are
  the same on every number within 1/1000 of the decimal, so they are the same on the
  doubles.
\<close>

lemma intensityFloatToInt_table_margin:
  assumes "\<bar>d\<bar> \<le> 1 / 1000"
  shows "intensityFloatToInt (Fin (3.2 + d)) = Fin 3"
    and "intensityFloatToInt (Fin (4.49 + d)) = Fin 4"
    and "intensityFloatToInt (Fin (4.99 + d)) = Fin 5"
    and "intensityFloatToInt (Fin (5.49 + d)) = Fin 6"
    and "intensityFloatToInt (Fin (5.99 + d)) = Fin 7"
    and "intensityFloatToInt (Fin (6.49 + d)) = Fin 8"
proof -
  from assms have b: "- (1 / 1000) \<le> d" "d \<le> 1 / 1000" by linarith+
  have "\<lfloor>3.2 + d + 1 / 2\<rfloor> = 3" using b by (intro floor_unique) simp_all
  moreover have "\<lfloor>4.49 + d + 1 / 2\<rfloor> = 4" using b by (intro floor_unique) simp_all
  ultimately show "intensityFloatToInt (Fin (3.2 + d)) = Fin 3"
    and "intensityFloatToInt (Fin (4.49 + d)) = Fin 4"
    and "intensityFloatToInt (Fin (4.99 + d)) = Fin 5"
    and "intensityFloatToInt (Fin (5.49 + d)) = Fin 6"
    and "intensityFloatToInt (Fin (5.99 + d)) = Fin 7"
    and "intensityFloatToInt (Fin (6.49 + d)) = Fin 8"
    using b by (simp_all add: intensityFloatToInt_def)
qed

lemma intensityFloatToInt_Fin_mono:
  assumes "x \<le> y"
  shows "js_le (intensityFloatToInt (Fin x)) (intensityFloatToInt (Fin y))"
proof -
  have m: "\<lfloor>x + 1 / 2\<rfloor> \<le> \<lfloor>y + 1 / 2\<rfloor>"
    using assms by (rule Math_round_mono)
  have bx: "0 \<le> x \<Longrightarrow> x < 4.5 \<Longrightarrow> \<lfloor>x + 1 / 2\<rfloor> \<le> 4"
    using Math_round_bounds[of x] by simp
  have bx0: "0 \<le> x \<Longrightarrow> x < 4.5 \<Longrightarrow> 0 \<le> \<lfloor>x + 1 / 2\<rfloor>"
    using Math_round_bounds[of x] by simp
  have by0: "0 \<le> y \<Longrightarrow> y < 4.5 \<Longrightarrow> 0 \<le> \<lfloor>y + 1 / 2\<rfloor>"
    using Math_round_bounds[of y] by simp
  show ?thesis
    using assms m bx bx0 by0 by (auto simp: intensityFloatToInt_def)
qed

text \<open>
  C4: \<^verbatim>\<open>intensityFloatToInt\<close> is monotonic non-decreasing on all numbers: whenever
  \<open>x <= y\<close> holds in JavaScript (which it never does when one of them is NaN), the result
  for \<open>x\<close> is at most the result for \<open>y\<close>.
\<close>

theorem intensityFloatToInt_mono:
  "js_le x y \<Longrightarrow> js_le (intensityFloatToInt x) (intensityFloatToInt y)"
proof (cases x; cases y)
  fix a b assume "js_le x y" "x = Fin a" "y = Fin b"
  then show ?thesis using intensityFloatToInt_Fin_mono[of a b] by simp
next
  fix a assume "x = Fin a" "y = PosInf"
  then show ?thesis using Math_round_bounds[of a] by (auto simp: intensityFloatToInt_def)
next
  fix b assume "x = NegInf" "y = Fin b"
  then show ?thesis using Math_round_bounds[of b] by (auto simp: intensityFloatToInt_def)
qed (auto simp: intensityFloatToInt_def)

theorem intensityFloatToInt_mono_witness:
  "js_le (Fin 4.49) (Fin 4.5) \<and> js_le (Fin 4) (Fin 5) \<and>
   intensityFloatToInt (Fin 4.49) = Fin 4 \<and> intensityFloatToInt (Fin 4.5) = Fin 5"
proof -
  have h: "js_le (Fin 4.49) (Fin 4.5)" by simp
  have f449: "\<lfloor>(4.49::real) + 1 / 2\<rfloor> = 4" by (simp add: floor_unique)
  have v: "intensityFloatToInt (Fin 4.49) = Fin 4 \<and> intensityFloatToInt (Fin 4.5) = Fin 5"
    using f449 by (simp add: intensityFloatToInt_def)
  show ?thesis using h v intensityFloatToInt_mono [OF h] by simp
qed

text \<open>
  C5, as the specification states it, with the ASCII strings \<open>5-\<close> and \<open>unknown\<close>, does not
  hold of the source: level 5 is the digit 5 followed by SUPERSCRIPT MINUS, and a level
  outside the list gives the two Chinese characters of \<open>unknown_text\<close>.
\<close>

theorem intensityToText_ascii_counterexample:
  "intensityToText 5 \<noteq> ''5-'' \<and> intensityToText 10 \<noteq> ''unknown''"
  by (simp add: intensityToText_def INTENSITY_LIST_def sup_minus_def unknown_text_def)

text \<open>
  C5 (amended): for every integer \<open>k\<close> from 0 to 9, \<^verbatim>\<open>intensityToText(k)\<close> is the \<open>k\<close>-th
  entry of the fixed ten-entry scale 0, 1, 2, 3, 4, 5 superscript-minus,
  5 superscript-plus, 6 superscript-minus, 6 superscript-plus, 7; for every integer
  below 0 or above 9 it is the sentinel \<open>unknown_text\<close>.
\<close>

theorem intensityToText_scale:
  "(0 \<le> k \<and> k \<le> 9 \<longrightarrow>
      intensityToText k =
        [''0'', ''1'', ''2'', ''3'', ''4'', ''5'' @ sup_minus, ''5'' @ sup_plus,
         ''6'' @ sup_minus, ''6'' @ sup_plus, ''7''] ! nat k) \<and>
   (k < 0 \<or> k > 9 \<longrightarrow> intensityToText k = unknown_text)"
  by (auto simp: intensityToText_def INTENSITY_LIST_def)

theorem intensityToText_scale_witness:
  "intensityToText 5 = [CHR ''5'', CHR 0xE2, CHR 0x81, CHR 0xBB] \<and>
   intensityToText 0 = ''0'' \<and> intensityToText 9 = ''7'' \<and>
   intensityToText 10 = [CHR 0xE4, CHR 0xB8, CHR 0x8D, CHR 0xE6, CHR 0x98, CHR 0x8E] \<and>
   intensityToText (-1) = [CHR 0xE4, CHR 0xB8, CHR 0x8D, CHR 0xE6, CHR 0x98, CHR 0x8E]"
  using intensityToText_scale [of 5] intensityToText_scale [of 0] intensityToText_scale [of 9]
    intensityToText_scale [of 10] intensityToText_scale [of "-1"]
  by (simp add: sup_minus_def unknown_text_def)

section \<open>The station cache: properties\<close>

text \<open>
  C1, as the specification states it, does not hold of the source: after the interval
  has passed, a call whose fetch fails returns \<open>null\<close> although a station directory is
  cached. The last statement of \<^verbatim>\<open>getStationInfo\<close> is \<^verbatim>\<open>return null\<close>, whatever
  \<^verbatim>\<open>stationInfo\<close> holds.
\<close>

theorem getStationInfo_stale_counterexample:
  "stationInfo sample_state = Some sample_stations \<and>
   STATION_INFO_INTERVAL \<le> 300000 - lastStationInfoFetch sample_state \<and>
   snd (getStationInfo 300000 None sample_state) = Inr None"
  by (simp add: getStationInfo_def sample_state_def STATION_INFO_INTERVAL_def fetchData_def)

text \<open>
  C1 (amended): a call to \<^verbatim>\<open>getStationInfo\<close> made on a cold start or after the
  interval has passed, whose fetch fails or returns a response that is not OK, returns
  \<open>null\<close>, whether or not a station directory is cached. It never throws, and it leaves
  the cached directory and the time of its fetch as they were; only \<^verbatim>\<open>isOffline\<close>
  records whether the request raised.
\<close>

theorem getStationInfo_failure:
  assumes "stationInfo st = None \<or> STATION_INFO_INTERVAL \<le> now - lastStationInfoFetch st"
    and "outcome = None \<or> (\<exists>body. outcome = Some (Response False body))"
  shows "getStationInfo now outcome st = (st\<lparr>isOffline := (outcome = None)\<rparr>, Inr None)"
  using assms by (auto simp: getStationInfo_def fetchData_def)

theorem getStationInfo_failure_witness:
  "(stationInfo sample_state = None \<or>
      STATION_INFO_INTERVAL \<le> 300000 - lastStationInfoFetch sample_state) \<and>
   getStationInfo 300000 None sample_state = (sample_state\<lparr>isOffline := True\<rparr>, Inr None) \<and>
   getStationInfo 300000 (Some (Response False None)) sample_state = (sample_state\<lparr>isOffline := False\<rparr>, Inr None)"
proof -
  have h: "stationInfo sample_state = None \<or>
      STATION_INFO_INTERVAL \<le> 300000 - lastStationInfoFetch sample_state"
    by (simp add: sample_state_def STATION_INFO_INTERVAL_def)
  show ?thesis
    using h getStationInfo_failure [OF h, of None]
      getStationInfo_failure [OF h, of "Some (Response False None)"]
    by simp
qed

section \<open>The reconciler: properties\<close>

subsection \<open>Entries the loop skips\<close>

lemma find_target_None:
  "find_target cfg c = None \<longleftrightarrow> c \<notin> (\<lambda>area. JNum (Fin (of_int (area_code area)))) ` set cfg"
  by (auto simp: find_target_def find_None_iff js_strict_eq_def)




text \<open>The station of the sample directory whose last \<^verbatim>\<open>info\<close> is \<open>null\<close> raises.\<close>

lemma current_area_null_info:
  "current_area CONFIG_targetAreas sample_stations ''S6'' = Inl TypeError"
  by (simp add: current_area_def sample_stations_def)

text \<open>
  C7: an entry whose station is absent from the station directory, or whose station
  has no or an empty \<^verbatim>\<open>info\<close> history, or whose current (last) area code is the code of
  no configured area, is skipped: the loop body leaves the store and the list of
  updated areas as they were and raises nothing, whatever the entry holds.
\<close>

theorem station_step_skip:
  assumes "si sid = None \<or>
           (\<exists>st. si sid = Some st \<and>
              (info st = None \<or> info st = Some [] \<or>
               (\<exists>history latest. info st = Some history \<and> history \<noteq> [] \<and>
                  last history = Some latest \<and>
                  code latest \<notin>
                    (\<lambda>area. JNum (Fin (of_int (area_code area)))) ` set cfg)))"
  shows "station_step cfg si now (sid, sd) store upd = (store, Inr upd)"
proof -
  from assms have "current_area cfg si sid = Inr None"
    by (auto simp: current_area_def Let_def find_target_None [THEN iffD2])
  then show ?thesis by (simp add: station_step_def)
qed

theorem station_step_skip_witness:
  "station_step CONFIG_targetAreas sample_stations 7 (''S9'', reading 5 1.2 1)
     (init_areaStatus CONFIG_targetAreas) [] = (init_areaStatus CONFIG_targetAreas, Inr []) \<and>
   station_step CONFIG_targetAreas sample_stations 7 (''S5'', reading 5 1.2 1)
     (init_areaStatus CONFIG_targetAreas) [] = (init_areaStatus CONFIG_targetAreas, Inr []) \<and>
   station_step CONFIG_targetAreas sample_stations 7 (''S4'', SNull)
     (init_areaStatus CONFIG_targetAreas) [] = (init_areaStatus CONFIG_targetAreas, Inr [])"
proof -
  have a: "sample_stations ''S9'' = None" by (simp add: sample_stations_def)
  have b: "sample_stations ''S5'' = Some \<lparr>info = Some []\<rparr>" by (simp add: sample_stations_def)
  have c: "sample_stations ''S4'' = Some \<lparr>info = Some [Some (sample_entry 999)]\<rparr>"
    by (simp add: sample_stations_def)
  have e: "code (sample_entry 999) \<notin>
      (\<lambda>area. JNum (Fin (of_int (area_code area)))) ` set CONFIG_targetAreas"
    by (simp add: CONFIG_targetAreas_def sample_entry_def)
  show ?thesis
    using station_step_skip [of sample_stations "''S9''" CONFIG_targetAreas 7 "reading 5 1.2 1"
        "init_areaStatus CONFIG_targetAreas" "[]"]
      station_step_skip [of sample_stations "''S5''" CONFIG_targetAreas 7 "reading 5 1.2 1"
        "init_areaStatus CONFIG_targetAreas" "[]"]
      station_step_skip [of sample_stations "''S4''" CONFIG_targetAreas 7 SNull
        "init_areaStatus CONFIG_targetAreas" "[]"]
      a b c e
    by simp
qed

subsection \<open>The keys of the store\<close>

lemma dom_fold_init_area: "dom (fold init_area cfg m) = dom m \<union> area_code ` set cfg"
  by (induction cfg arbitrary: m) (auto simp: init_area_def)

lemma dom_init_areaStatus: "dom (init_areaStatus cfg) = area_code ` set cfg"
  by (simp add: init_areaStatus_def dom_fold_init_area)

lemma station_step_dom: "dom (fst (station_step cfg si now entry store upd)) = dom store"
  by (auto simp: station_step_def Let_def split: prod.splits option.splits station_data.splits sum.splits)

lemma station_loop_dom: "dom (fst (station_loop cfg si clk k entries store upd)) = dom store"
proof (induction entries arbitrary: k store upd)
  case Nil
  show ?case by simp
next
  case (Cons entry entries)
  obtain store1 r where s: "station_step cfg si (clk k) entry store upd = (store1, r)"
    by (cases "station_step cfg si (clk k) entry store upd")
  then have d: "dom store1 = dom store"
    using station_step_dom [of cfg si "clk k" entry store upd] by simp
  show ?case
  proof (cases r)
    case (Inl e)
    with s d show ?thesis by simp
  next
    case (Inr upd1)
    with s d Cons.IH [of "Suc k" store1 upd1] show ?thesis by simp
  qed
qed

lemma getStationInfo_areaStatus: "areaStatus (fst (getStationInfo now outcome st)) = areaStatus st"
  by (auto simp: getStationInfo_def fetchData_def Let_def split: option.splits response.splits bool.splits)

lemma reconcile_dom: "dom (fst (reconcile cfg si clk entries store)) = dom store"
  by (simp add: reconcile_def station_loop_dom)

lemma processTargetAreaData_dom:
  "dom (areaStatus (fst (processTargetAreaData cfg inp data st))) = dom (areaStatus st)"
proof (cases data)
  case None
  then show ?thesis by (simp add: processTargetAreaData_def)
next
  case (Some d)
  show ?thesis
  proof (cases "rts_station d")
    case None
    with Some show ?thesis by (simp add: processTargetAreaData_def)
  next
    case (Some entries)
    obtain st1 r where g: "getStationInfo (t_station inp) (station_response inp) st = (st1, r)"
      by (cases "getStationInfo (t_station inp) (station_response inp) st")
    have a: "areaStatus st1 = areaStatus st"
      using getStationInfo_areaStatus [of "t_station inp" "station_response inp" st] g by simp
    show ?thesis
    proof (cases r)
      case (Inl e)
      with \<open>data = Some d\<close> Some g a show ?thesis by (simp add: processTargetAreaData_def)
    next
      case (Inr cached)
      show ?thesis
      proof (cases cached)
        case None
        with \<open>data = Some d\<close> Some g a Inr show ?thesis by (simp add: processTargetAreaData_def)
      next
        case (Some si)
        obtain store1 r1 where l: "reconcile cfg si (clock inp) entries (areaStatus st1) = (store1, r1)"
          by (cases "reconcile cfg si (clock inp) entries (areaStatus st1)")
        have "dom store1 = dom (areaStatus st1)"
          using reconcile_dom [of cfg si "clock inp" entries "areaStatus st1"] l by simp
        with \<open>data = Some d\<close> \<open>rts_station d = Some entries\<close> g a Inr Some l show ?thesis
          by (cases r1) (simp_all add: processTargetAreaData_def)
      qed
    qed
  qed
qed

lemma heartbeat_state: "fst (heartbeat cfg st evs) = st"
  by (simp add: heartbeat_def split: sum.splits)

lemma tick_finish_state: "fst (tick_finish cfg str_num inp targetAreaData st) = st"
  by (simp add: tick_finish_def Let_def heartbeat_state split: sum.splits)

lemma handle_response_dom:
  "dom (areaStatus (fst (handle_response cfg str_num inp st))) = dom (areaStatus st)"
proof (cases "\<exists>data. rts_response inp = Some (Response True (Some data))")
  case True
  then obtain data where r: "rts_response inp = Some (Response True (Some data))" by blast
  obtain st3 res where p: "processTargetAreaData cfg inp data st = (st3, res)"
    by (cases "processTargetAreaData cfg inp data st")
  have d: "dom (areaStatus st3) = dom (areaStatus st)"
    using processTargetAreaData_dom [of cfg inp data st] p by simp
  show ?thesis
    using r p d
    by (simp add: handle_response_def tick_finish_state split: sum.splits)
next
  case False
  then show ?thesis
    by (simp add: handle_response_def heartbeat_state
        split: option.splits response.splits bool.splits)
qed

lemma fetchRealtimeData_dom:
  "dom (areaStatus (fst (fetchRealtimeData cfg str_num inp st))) = dom (areaStatus st)"
  by (simp add: fetchRealtimeData_def tick_begin_def tick_resume_def handle_response_dom
      fetchData_def)

lemma poll_loop_dom: "dom (areaStatus (poll_loop cfg str_num inps st)) = dom (areaStatus st)"
  by (induction inps arbitrary: st) (simp_all add: fetchRealtimeData_dom)

text \<open>
  C8: the store is initialised with exactly one status per configured area code, and
  its set of keys never changes: not by a run of the reconciler on any payload and
  station directory, not by a call of \<^verbatim>\<open>processTargetAreaData\<close> (whether it returns or
  raises), and not by any number of ticks of the poll loop on any inputs; nor by the
  start of a tick or by its resumption after the fetch, at whatever state of the
  module they run, so not by overlapping ticks either. The store is a map, so a key
  has one status.
\<close>

theorem areaStatus_keys_invariant:
  "dom (areaStatus (init_state cfg)) = area_code ` set cfg \<and>
   dom (fst (reconcile cfg si clk entries store)) = dom store \<and>
   dom (areaStatus (fst (processTargetAreaData cfg rinp data st))) = dom (areaStatus st) \<and>
   dom (areaStatus (poll_loop cfg str_num inps (init_state cfg))) = area_code ` set cfg \<and>
   (case tick_begin inp st of None \<Rightarrow> True
    | Some st1 \<Rightarrow> dom (areaStatus st1) = dom (areaStatus st)) \<and>
   dom (areaStatus (fst (tick_resume cfg str_num inp st))) = dom (areaStatus st)"
  by (simp add: poll_loop_dom processTargetAreaData_dom dom_init_areaStatus init_state_def
      reconcile_dom tick_begin_def tick_resume_def handle_response_dom fetchData_def)

section \<open>The sample runs\<close>

lemma current_area_samples:
  "current_area CONFIG_targetAreas sample_stations ''S1'' =
     Inr (Some (CONFIG_targetAreas ! 0, sample_entry 106))"
  "current_area CONFIG_targetAreas sample_stations ''S2'' =
     Inr (Some (CONFIG_targetAreas ! Suc 0, sample_entry 402))"
  "current_area CONFIG_targetAreas sample_stations ''S3'' =
     Inr (Some (CONFIG_targetAreas ! 0, sample_entry 106))"
  "current_area CONFIG_targetAreas sample_stations ''S4'' = Inr None"
  by (simp_all add: current_area_def sample_stations_def find_target_def CONFIG_targetAreas_def
      js_strict_eq_def sample_entry_def)

lemma area_code_CONFIG:
  "area_code (CONFIG_targetAreas ! 0) = 106"
  "area_code (CONFIG_targetAreas ! Suc 0) = 402"
  by (simp_all add: CONFIG_targetAreas_def)

lemma init_areaStatus_CONFIG:
  "init_areaStatus CONFIG_targetAreas 106 =
     Some \<lparr>name = area_name (CONFIG_targetAreas ! 0), pga = JNum (Fin 0), intensity = JNum (Fin 0),
        intensityText = JStr ''0'', lastUpdate = None\<rparr>"
  "init_areaStatus CONFIG_targetAreas 402 =
     Some \<lparr>name = area_name (CONFIG_targetAreas ! Suc 0), pga = JNum (Fin 0), intensity = JNum (Fin 0),
        intensityText = JStr ''0'', lastUpdate = None\<rparr>"
  by (simp_all add: init_areaStatus_def init_area_def CONFIG_targetAreas_def)

lemmas sample_eval = current_area_samples area_code_CONFIG init_areaStatus_CONFIG
  station_step_def reading_def js_or_def js_strict_ne_def js_strict_eq_def
  sample_clock_def later_clock_def reconcile_def Let_def sample_entry_def
  sample_status_def sample_update_def

lemma run_two_areas:
  "reconcile CONFIG_targetAreas sample_stations sample_clock payload_two_areas
     (init_areaStatus CONFIG_targetAreas) =
   ((init_areaStatus CONFIG_targetAreas)
      (106 \<mapsto> sample_status 0 (JNum (Fin 5)) (JNum (Fin 1.2)) (JNum (Fin 1)) 5000,
       402 \<mapsto> sample_status 1 (JNum (Fin 3)) (JNum (Fin 0.8)) (JNum (Fin 1)) 5002),
    Inr [sample_update 0 ''S1'' (JNum (Fin 5)) (Fin 1.2) (JNum (Fin 1)),
         sample_update 1 ''S2'' (JNum (Fin 3)) (Fin 0.8) (JNum (Fin 1))])"
  by (simp add: sample_eval payload_two_areas_def)

lemma run_same_area:
  "reconcile CONFIG_targetAreas sample_stations sample_clock payload_same_area
     (init_areaStatus CONFIG_targetAreas) =
   ((init_areaStatus CONFIG_targetAreas)
      (106 \<mapsto> sample_status 0 (JNum (Fin 6)) (JNum (Fin 1.5)) (JNum (Fin 1)) 5001),
    Inr [sample_update 0 ''S1'' (JNum (Fin 5)) (Fin 1.2) (JNum (Fin 1)),
         sample_update 0 ''S3'' (JNum (Fin 6)) (Fin 1.5) (JNum (Fin 1))])"
  by (simp add: sample_eval payload_same_area_def)

lemma run_same_area_again:
  "reconcile CONFIG_targetAreas sample_stations later_clock payload_same_area
     ((init_areaStatus CONFIG_targetAreas)
        (106 \<mapsto> sample_status 0 (JNum (Fin 6)) (JNum (Fin 1.5)) (JNum (Fin 1)) 5001)) =
   ((init_areaStatus CONFIG_targetAreas)
      (106 \<mapsto> sample_status 0 (JNum (Fin 6)) (JNum (Fin 1.5)) (JNum (Fin 1)) 6001),
    Inr [sample_update 0 ''S1'' (JNum (Fin 5)) (Fin 1.2) (JNum (Fin 1)),
         sample_update 0 ''S3'' (JNum (Fin 6)) (Fin 1.5) (JNum (Fin 1))])"
  by (simp add: sample_eval payload_same_area_def)




lemma agreeing_two_areas: "agreeing CONFIG_targetAreas sample_stations payload_two_areas"
  by (simp add: agreeing_def payload_two_areas_def area_reading_def sample_eval)

lemma no_NaN_two_areas: "no_NaN payload_two_areas"
  by (simp add: no_NaN_def payload_two_areas_def reading_def)

text \<open>The keys of the store of the source's configuration, after three sample ticks.\<close>

theorem areaStatus_keys_invariant_witness:
  "dom (areaStatus (init_state CONFIG_targetAreas)) = {106, 402, 710, 301} \<and>
   dom (areaStatus (poll_loop CONFIG_targetAreas no_strings
          [tick_with payload_missing_i, tick_fetch_failed, tick_with payload_two_areas]
          (init_state CONFIG_targetAreas))) = {106, 402, 710, 301}"
proof -
  have "area_code ` set CONFIG_targetAreas = {106, 402, 710, 301}"
    by (simp add: CONFIG_targetAreas_def)
  with areaStatus_keys_invariant [of CONFIG_targetAreas sample_stations sample_clock
      payload_two_areas "init_areaStatus CONFIG_targetAreas" tick_fetch_failed None sample_state
      no_strings "[tick_with payload_missing_i, tick_fetch_failed, tick_with payload_two_areas]"]
  show ?thesis by simp
qed

subsection \<open>The intensity text\<close>


lemma toFixed2_Inl: "toFixed2 v = Inl e \<Longrightarrow> e = TypeError"
  by (cases v) simp_all


lemma written_from_mono: "written_from cfg si E k status \<Longrightarrow> E \<subseteq> F \<Longrightarrow> written_from cfg si F k status"
  unfolding written_from_def by blast







subsection \<open>Idempotence\<close>

lemma js_or_not_NaN: "js_or p (JNum (Fin 0)) \<noteq> JNum NaN"
  by (cases p) (auto simp: js_or_def)

lemma station_step_skip_None:
  "current_area cfg si sid = Inr None \<Longrightarrow> station_step cfg si now (sid, sd) store upd = (store, Inr upd)"
  by (simp add: station_step_def)

text \<open>A step on an entry whose reading the store already holds changes nothing.\<close>
lemma station_step_holds:
  assumes "area_reading cfg si (sid, sd) = Some (k, p, I)" "holds store (k, p, I)" "I \<noteq> JNum NaN"
  shows "station_step cfg si now (sid, sd) store upd = (store, Inr upd)"
  using assms js_or_not_NaN
  by (auto simp: area_reading_def holds_def station_step_def Let_def js_strict_ne_def js_strict_eq_def
      split: option.splits prod.splits station_data.splits sum.splits)

text \<open>After a step that did not raise, the store holds the reading of the entry.\<close>
lemma station_step_Inr:
  assumes "station_step cfg si now (sid, sd) store upd = (store', Inr upd')"
  shows "current_area cfg si sid = Inr None \<or>
         (\<exists>r. area_reading cfg si (sid, sd) = Some r \<and> holds store' r)"
  using assms
  by (auto simp: area_reading_def holds_def station_step_def Let_def js_strict_ne_def js_strict_eq_def
      split: option.splits prod.splits station_data.splits sum.splits if_splits)

text \<open>A step changes the store at most at the area of its entry, to the entry's reading.\<close>
lemma station_step_preserves_holds:
  assumes "station_step cfg si now e store upd = (store', r)"
    and "holds store (k, v)"
    and "\<forall>v'. area_reading cfg si e = Some (k, v') \<longrightarrow> v' = v"
  shows "holds store' (k, v)"
  using assms
  by (cases e; cases v)
     (auto simp: area_reading_def holds_def station_step_def Let_def
      split: option.splits prod.splits station_data.splits sum.splits if_splits)

lemma station_loop_preserves_holds:
  assumes "station_loop cfg si clk n entries store upd = (store', r)"
    and "holds store (k, v)"
    and "\<forall>e \<in> set entries. \<forall>v'. area_reading cfg si e = Some (k, v') \<longrightarrow> v' = v"
  shows "holds store' (k, v)"
  using assms
proof (induction entries arbitrary: n store upd)
  case Nil
  then show ?case by simp
next
  case (Cons e entries)
  obtain store1 r1 where s: "station_step cfg si (clk n) e store upd = (store1, r1)"
    by (cases "station_step cfg si (clk n) e store upd")
  have h1: "holds store1 (k, v)"
    by (rule station_step_preserves_holds [OF s Cons.prems(2)]) (use Cons.prems(3) in simp)
  show ?case
  proof (cases r1)
    case (Inl err)
    with Cons.prems(1) s h1 show ?thesis by simp
  next
    case (Inr upd1)
    with Cons.prems(1) s
    have l: "station_loop cfg si clk (Suc n) entries store1 upd1 = (store', r)" by simp
    show ?thesis
      by (rule Cons.IH [OF l h1]) (use Cons.prems(3) in simp)
  qed
qed

lemma agreeing_Cons:
  assumes "agreeing cfg si (e # entries)"
  shows "agreeing cfg si entries"
  unfolding agreeing_def
proof (intro ballI allI impI)
  fix a b k v v'
  assume "a \<in> set entries" "b \<in> set entries"
    and r: "area_reading cfg si a = Some (k, v) \<and> area_reading cfg si b = Some (k, v')"
  then have "a \<in> set (e # entries)" "b \<in> set (e # entries)" by simp_all
  from assms [unfolded agreeing_def, rule_format, OF this r] show "v = v'" .
qed

lemma agreeing_head:
  assumes "agreeing cfg si (e # entries)" and "area_reading cfg si e = Some (k, v)"
  shows "\<forall>e' \<in> set entries. \<forall>v'. area_reading cfg si e' = Some (k, v') \<longrightarrow> v' = v"
proof (intro ballI allI impI)
  fix e' v'
  assume "e' \<in> set entries" and r: "area_reading cfg si e' = Some (k, v')"
  then have "e' \<in> set (e # entries)" and "e \<in> set (e # entries)" by simp_all
  from assms(1) [unfolded agreeing_def, rule_format, OF this, of k v' v] r assms(2)
  show "v' = v" by simp
qed

text \<open>After a run that did not raise, the store holds the reading of every entry.\<close>
lemma station_loop_Inr:
  assumes "station_loop cfg si clk n entries store upd = (store', Inr upd')"
    and "agreeing cfg si entries"
  shows "\<forall>e \<in> set entries. current_area cfg si (fst e) = Inr None \<or>
           (\<exists>r. area_reading cfg si e = Some r \<and> holds store' r)"
  using assms
proof (induction entries arbitrary: n store upd)
  case Nil
  then show ?case by simp
next
  case (Cons e entries)
  obtain sid sd where e: "e = (sid, sd)" by (cases e)
  obtain store1 r1 where s: "station_step cfg si (clk n) (sid, sd) store upd = (store1, r1)"
    by (cases "station_step cfg si (clk n) (sid, sd) store upd")
  from Cons.prems(1) e s obtain upd1 where r1: "r1 = Inr upd1"
    by (cases r1) simp_all
  with Cons.prems(1) e s
  have l: "station_loop cfg si clk (Suc n) entries store1 upd1 = (store', Inr upd')" by simp
  have rest: "\<forall>e \<in> set entries. current_area cfg si (fst e) = Inr None \<or>
           (\<exists>r. area_reading cfg si e = Some r \<and> holds store' r)"
    by (rule Cons.IH [OF l agreeing_Cons [OF Cons.prems(2)]])
  have first: "current_area cfg si (fst e) = Inr None \<or>
           (\<exists>r. area_reading cfg si e = Some r \<and> holds store' r)"
  proof (cases "current_area cfg si sid = Inr None")
    case True
    with e show ?thesis by simp
  next
    case False
    with station_step_Inr [OF s [unfolded r1]] obtain r where
      r: "area_reading cfg si (sid, sd) = Some r" "holds store1 r" by blast
    obtain k v where kv: "r = (k, v)" by (cases r)
    have a: "\<forall>e' \<in> set entries. \<forall>v'. area_reading cfg si e' = Some (k, v') \<longrightarrow> v' = v"
      by (rule agreeing_head [OF Cons.prems(2)]) (use r(1) e kv in simp)
    have h1: "holds store1 (k, v)" using r(2) kv by simp
    have "holds store' (k, v)"
      by (rule station_loop_preserves_holds [OF l h1 a])
    with r(1) e kv show ?thesis by simp
  qed
  from first rest show ?case by simp
qed

text \<open>A run over entries whose readings the store holds changes nothing.\<close>
lemma station_loop_holds:
  assumes "\<forall>e \<in> set entries. current_area cfg si (fst e) = Inr None \<or>
           (\<exists>r. area_reading cfg si e = Some r \<and> holds store r)"
    and "no_NaN entries"
  shows "station_loop cfg si clk n entries store upd = (store, Inr upd)"
  using assms
proof (induction entries arbitrary: n)
  case Nil
  show ?case by simp
next
  case (Cons e entries)
  obtain sid sd where e: "e = (sid, sd)" by (cases e)
  have step: "station_step cfg si (clk n) (sid, sd) store upd = (store, Inr upd)"
  proof (cases "current_area cfg si sid = Inr None")
    case True
    then show ?thesis by (rule station_step_skip_None)
  next
    case False
    from Cons.prems(1) have "current_area cfg si (fst e) = Inr None \<or>
           (\<exists>r. area_reading cfg si e = Some r \<and> holds store r)" by simp
    with False e obtain r where r0: "area_reading cfg si (sid, sd) = Some r" "holds store r"
      by auto
    obtain k p I where kpi: "r = (k, p, I)" by (cases r)
    from r0(1) obtain p0 i0 I0 where sd: "sd = SObj p0 i0 I0"
      by (cases sd) (auto simp: area_reading_def split: option.splits prod.splits sum.splits)
    with r0(1) kpi have "I0 = I"
      by (auto simp: area_reading_def split: option.splits prod.splits sum.splits)
    with Cons.prems(2) e sd have "I \<noteq> JNum NaN" by (simp add: no_NaN_def)
    with r0 kpi show ?thesis by (simp add: station_step_holds)
  qed
  have "station_loop cfg si clk (Suc n) entries store upd = (store, Inr upd)"
    by (rule Cons.IH) (use Cons.prems in \<open>simp_all add: no_NaN_def\<close>)
  with step e show ?case by simp
qed

text \<open>
  C6, as the specification states it, does not hold of the source: with two stations
  of one monitored area that report different readings, each run writes the status of
  the area twice, so the second run on the same payload reports both entries as
  changed again and moves \<^verbatim>\<open>lastUpdate\<close>.
\<close>

theorem reconcile_same_area_counterexample:
  "reconcile CONFIG_targetAreas sample_stations sample_clock payload_same_area
     (init_areaStatus CONFIG_targetAreas) =
   ((init_areaStatus CONFIG_targetAreas)
      (106 \<mapsto> sample_status 0 (JNum (Fin 6)) (JNum (Fin 1.5)) (JNum (Fin 1)) 5001),
    Inr [sample_update 0 ''S1'' (JNum (Fin 5)) (Fin 1.2) (JNum (Fin 1)),
         sample_update 0 ''S3'' (JNum (Fin 6)) (Fin 1.5) (JNum (Fin 1))]) \<and>
   reconcile CONFIG_targetAreas sample_stations later_clock payload_same_area
     ((init_areaStatus CONFIG_targetAreas)
        (106 \<mapsto> sample_status 0 (JNum (Fin 6)) (JNum (Fin 1.5)) (JNum (Fin 1)) 5001)) =
   ((init_areaStatus CONFIG_targetAreas)
      (106 \<mapsto> sample_status 0 (JNum (Fin 6)) (JNum (Fin 1.5)) (JNum (Fin 1)) 6001),
    Inr [sample_update 0 ''S1'' (JNum (Fin 5)) (Fin 1.2) (JNum (Fin 1)),
         sample_update 0 ''S3'' (JNum (Fin 6)) (Fin 1.5) (JNum (Fin 1))]) \<and>
   lastUpdate (sample_status 0 (JNum (Fin 6)) (JNum (Fin 1.5)) (JNum (Fin 1)) 6001) \<noteq>
   lastUpdate (sample_status 0 (JNum (Fin 6)) (JNum (Fin 1.5)) (JNum (Fin 1)) 5001)"
  using run_same_area run_same_area_again by (simp add: sample_status_def)

text \<open>
  C6 (amended): when a run of the reconciler completes without raising, on a payload
  whose entries agree (any two entries that belong to the same monitored area carry
  the same \<^verbatim>\<open>pga\<close> and \<^verbatim>\<open>I\<close>; in particular when every monitored area has at most one
  station in the payload) and hold no NaN, then a second run on the same payload and
  station directory, at any later times, yields an empty list of updated areas and
  leaves the store, every \<^verbatim>\<open>lastUpdate\<close> included, as the first run left it.
\<close>

theorem reconcile_idempotent:
  assumes "reconcile cfg si clk entries store = (store1, Inr upd1)"
    and "agreeing cfg si entries"
    and "no_NaN entries"
  shows "reconcile cfg si clk' entries store1 = (store1, Inr [])"
proof -
  from assms(1) have "station_loop cfg si clk 0 entries store [] = (store1, Inr upd1)"
    by (simp add: reconcile_def)
  from station_loop_Inr [OF this assms(2)] assms(3) show ?thesis
    unfolding reconcile_def by (rule station_loop_holds)
qed

theorem reconcile_idempotent_witness:
  "reconcile CONFIG_targetAreas sample_stations sample_clock payload_two_areas
     (init_areaStatus CONFIG_targetAreas) =
   ((init_areaStatus CONFIG_targetAreas)
      (106 \<mapsto> sample_status 0 (JNum (Fin 5)) (JNum (Fin 1.2)) (JNum (Fin 1)) 5000,
       402 \<mapsto> sample_status 1 (JNum (Fin 3)) (JNum (Fin 0.8)) (JNum (Fin 1)) 5002),
    Inr [sample_update 0 ''S1'' (JNum (Fin 5)) (Fin 1.2) (JNum (Fin 1)),
         sample_update 1 ''S2'' (JNum (Fin 3)) (Fin 0.8) (JNum (Fin 1))]) \<and>
   agreeing CONFIG_targetAreas sample_stations payload_two_areas \<and>
   no_NaN payload_two_areas \<and>
   reconcile CONFIG_targetAreas sample_stations later_clock payload_two_areas
     ((init_areaStatus CONFIG_targetAreas)
      (106 \<mapsto> sample_status 0 (JNum (Fin 5)) (JNum (Fin 1.2)) (JNum (Fin 1)) 5000,
       402 \<mapsto> sample_status 1 (JNum (Fin 3)) (JNum (Fin 0.8)) (JNum (Fin 1)) 5002)) =
   ((init_areaStatus CONFIG_targetAreas)
      (106 \<mapsto> sample_status 0 (JNum (Fin 5)) (JNum (Fin 1.2)) (JNum (Fin 1)) 5000,
       402 \<mapsto> sample_status 1 (JNum (Fin 3)) (JNum (Fin 0.8)) (JNum (Fin 1)) 5002),
    Inr [])"
  using run_two_areas agreeing_two_areas no_NaN_two_areas
    reconcile_idempotent [OF run_two_areas agreeing_two_areas no_NaN_two_areas, of later_clock]
  by (intro conjI)

subsection \<open>Entries that raise\<close>














section \<open>The poll loop: properties\<close>


















end
